theory Spec2Isabelle
  imports Main "HOL-Library.Sublist"
begin

section \<open>Python values as produced by the JSON decoder\<close>

text \<open>
  \<^verbatim>\<open>json.loads\<close> yields \<^verbatim>\<open>str\<close>, \<^verbatim>\<open>int\<close>, \<^verbatim>\<open>float\<close>, \<^verbatim>\<open>bool\<close>, \<^verbatim>\<open>None\<close>,
  \<^verbatim>\<open>dict\<close> and \<^verbatim>\<open>list\<close> objects. A dict keeps its items in insertion order, so it is
  an association list; the functions below only ever iterate over \<^verbatim>\<open>items()\<close>.
  A float is represented by the text that \<^verbatim>\<open>float.__repr__\<close> gives for it: nothing in the
  program computes with floats, they are only printed. A character is a code point in
  the range 0 to 255.
\<close>

datatype pyval =
    PStr string
  | PInt int
  | PFloat string
  | PBool bool
  | PNone
  | PDict "(string \<times> pyval) list"
  | PList "pyval list"

datatype pyclass = C_str | C_int | C_float | C_bool | C_NoneType | C_dict | C_list

fun type_of :: "pyval \<Rightarrow> pyclass" where
  "type_of (PStr s) = C_str"
| "type_of (PInt i) = C_int"
| "type_of (PFloat r) = C_float"
| "type_of (PBool b) = C_bool"
| "type_of PNone = C_NoneType"
| "type_of (PDict kvs) = C_dict"
| "type_of (PList xs) = C_list"

text \<open>In Python \<^verbatim>\<open>bool\<close> is a subclass of \<^verbatim>\<open>int\<close>; the other classes are unrelated.\<close>

definition subclass_of :: "pyclass \<Rightarrow> pyclass \<Rightarrow> bool" where
  "subclass_of c d = (c = d \<or> (c = C_bool \<and> d = C_int))"

text \<open>\<^verbatim>\<open>isinstance(value, (c1, ..., cn))\<close>\<close>

definition isinstance :: "pyval \<Rightarrow> pyclass list \<Rightarrow> bool" where
  "isinstance v cs = list_ex (subclass_of (type_of v)) cs"

section \<open>Python string primitives\<close>

text \<open>\<^verbatim>\<open>str.lower\<close> on the code points 0 to 255: the ASCII capitals and the Latin-1
  capitals U+00C0 to U+00DE (the multiplication sign U+00D7 apart) move up by 32.\<close>

definition lower_char :: "char \<Rightarrow> char" where
  "lower_char c = (let n = (of_char c :: nat) in
     if (65 \<le> n \<and> n \<le> 90) \<or> (192 \<le> n \<and> n \<le> 222 \<and> n \<noteq> 215)
     then char_of (n + 32) else c)"

definition lower :: "string \<Rightarrow> string" where
  "lower s = map lower_char s"

text \<open>\<^verbatim>\<open>sub in s\<close> for strings: \<^verbatim>\<open>sub\<close> occurs in \<^verbatim>\<open>s\<close> as a contiguous block.\<close>

fun py_in :: "string \<Rightarrow> string \<Rightarrow> bool" where
  "py_in sub [] = (sub = [])"
| "py_in sub (c # cs) = (prefix sub (c # cs) \<or> py_in sub cs)"

definition digit_char :: "nat \<Rightarrow> char" where
  "digit_char d = char_of (48 + d)"

fun str_nat :: "nat \<Rightarrow> string" where
  "str_nat n = (if n < 10 then [digit_char n] else str_nat (n div 10) @ [digit_char (n mod 10)])"

declare str_nat.simps [simp del]

definition str_int :: "int \<Rightarrow> string" where
  "str_int i = (if i < 0 then ''-'' @ str_nat (nat (- i)) else str_nat (nat i))"

definition hex_char :: "nat \<Rightarrow> char" where
  "hex_char d = (if d < 10 then char_of (48 + d) else char_of (87 + d))"

definition hex2 :: "nat \<Rightarrow> string" where
  "hex2 n = [hex_char (n div 16 mod 16), hex_char (n mod 16)]"

abbreviation (input) dq :: char where "dq \<equiv> CHR 0x22"
abbreviation (input) sq :: char where "sq \<equiv> CHR 0x27"
abbreviation (input) bs :: char where "bs \<equiv> CHR 0x5C"
abbreviation (input) LF :: char where "LF \<equiv> CHR 0x0A"
abbreviation (input) CR :: char where "CR \<equiv> CHR 0x0D"
abbreviation (input) TAB :: char where "TAB \<equiv> CHR 0x09"

subsection \<open>\<^verbatim>\<open>repr\<close> and \<^verbatim>\<open>str\<close>\<close>

text \<open>\<^verbatim>\<open>repr\<close> of a string: single quotes unless the string has a single quote and no
  double quote; the quote and the backslash are escaped, tab, newline and return get their
  letters, and every other unprintable code point is written \<^verbatim>\<open>\xhh\<close>.\<close>

definition repr_quote :: "string \<Rightarrow> char" where
  "repr_quote s = (if sq \<in> set s \<and> dq \<notin> set s then dq else sq)"

definition printable :: "char \<Rightarrow> bool" where
  "printable c = (let n = (of_char c :: nat) in
     (32 \<le> n \<and> n < 127) \<or> (161 \<le> n \<and> n \<noteq> 173))"

definition repr_char :: "char \<Rightarrow> char \<Rightarrow> string" where
  "repr_char q c =
    (if c = q \<or> c = bs then [bs, c]
     else if c = TAB then [bs, CHR ''t'']
     else if c = LF then [bs, CHR ''n'']
     else if c = CR then [bs, CHR ''r'']
     else if printable c then [c]
     else [bs, CHR ''x''] @ hex2 (of_char c))"

definition repr_str :: "string \<Rightarrow> string" where
  "repr_str s = (let q = repr_quote s in [q] @ concat (map (repr_char q) s) @ [q])"

fun py_repr :: "pyval \<Rightarrow> string"
and repr_items :: "(string \<times> pyval) list \<Rightarrow> string"
and repr_elems :: "pyval list \<Rightarrow> string" where
  "py_repr (PStr s) = repr_str s"
| "py_repr (PInt i) = str_int i"
| "py_repr (PFloat r) = r"
| "py_repr (PBool b) = (if b then ''True'' else ''False'')"
| "py_repr PNone = ''None''"
| "py_repr (PDict kvs) = ''{'' @ repr_items kvs @ ''}''"
| "py_repr (PList xs) = ''['' @ repr_elems xs @ '']''"
| "repr_items [] = []"
| "repr_items ((k, v) # kvs) =
     repr_str k @ '': '' @ py_repr v @ (if kvs = [] then [] else '', '' @ repr_items kvs)"
| "repr_elems [] = []"
| "repr_elems (x # xs) = py_repr x @ (if xs = [] then [] else '', '' @ repr_elems xs)"

text \<open>\<^verbatim>\<open>str(value)\<close>: a string is itself, everything else is its \<^verbatim>\<open>repr\<close>.\<close>

fun py_str :: "pyval \<Rightarrow> string" where
  "py_str (PStr s) = s"
| "py_str v = py_repr v"

subsection \<open>\<^verbatim>\<open>json.dumps\<close> with its default arguments\<close>

text \<open>A string is written between double quotes with \<^verbatim>\<open>ensure_ascii\<close>: the double quote
  and the backslash are escaped, backspace, form feed, newline, return and tab get their
  letters, and every code point outside the range from space to tilde is written
  \<^verbatim>\<open>\u00hh\<close>.\<close>

definition json_char :: "char \<Rightarrow> string" where
  "json_char c =
    (if c = dq \<or> c = bs then [bs, c]
     else if c = CHR 0x08 then [bs, CHR ''b'']
     else if c = CHR 0x0C then [bs, CHR ''f'']
     else if c = LF then [bs, CHR ''n'']
     else if c = CR then [bs, CHR ''r'']
     else if c = TAB then [bs, CHR ''t'']
     else if 32 \<le> (of_char c :: nat) \<and> (of_char c :: nat) < 127 then [c]
     else [bs, CHR ''u'', CHR ''0'', CHR ''0''] @ hex2 (of_char c))"

definition json_str :: "string \<Rightarrow> string" where
  "json_str s = [dq] @ concat (map json_char s) @ [dq]"

definition json_float :: "string \<Rightarrow> string" where
  "json_float r = (if r = ''nan'' then ''NaN'' else if r = ''inf'' then ''Infinity''
     else if r = ''-inf'' then ''-Infinity'' else r)"

fun json_dumps :: "pyval \<Rightarrow> string"
and dumps_items :: "(string \<times> pyval) list \<Rightarrow> string"
and dumps_elems :: "pyval list \<Rightarrow> string" where
  "json_dumps (PStr s) = json_str s"
| "json_dumps (PInt i) = str_int i"
| "json_dumps (PFloat r) = json_float r"
| "json_dumps (PBool b) = (if b then ''true'' else ''false'')"
| "json_dumps PNone = ''null''"
| "json_dumps (PDict kvs) = ''{'' @ dumps_items kvs @ ''}''"
| "json_dumps (PList xs) = ''['' @ dumps_elems xs @ '']''"
| "dumps_items [] = []"
| "dumps_items ((k, v) # kvs) =
     json_str k @ '': '' @ json_dumps v @ (if kvs = [] then [] else '', '' @ dumps_items kvs)"
| "dumps_elems [] = []"
| "dumps_elems (x # xs) = json_dumps x @ (if xs = [] then [] else '', '' @ dumps_elems xs)"

section \<open>The type classifier\<close>

definition get_value_type :: "pyval \<Rightarrow> string" where
  "get_value_type v =
    (if isinstance v [C_str] then ''string''
     else if isinstance v [C_int, C_float] then ''number''
     else if isinstance v [C_bool] then ''boolean''
     else if v = PNone then ''null''
     else if isinstance v [C_dict] then ''object''
     else if isinstance v [C_list] then ''array''
     else ''unknown'')"

section \<open>The tree renderer\<close>

text \<open>The class attribute decided at lines 69 and 86 of the source (the same expression in
  both branches): \<^verbatim>\<open>search_term and search_term.lower() in str(data).lower()\<close>.\<close>

definition highlight_class :: "pyval \<Rightarrow> string \<Rightarrow> string" where
  "highlight_class data search_term =
    (if search_term \<noteq> [] \<and> py_in (lower search_term) (lower (py_str data))
     then ''json-highlight'' else [])"

definition container_node :: "pyval \<Rightarrow> string \<Rightarrow> string \<Rightarrow> int \<Rightarrow> string \<Rightarrow> string" where
  \<open>container_node data key search_term level content =
    (let value_type = get_value_type data;
         highlight = highlight_class data search_term;
         open_bracket = (if value_type = ''object'' then ''{'' else ''['');
         close_bracket = (if value_type = ''object'' then ''}'' else '']'')
     in ''\<newline>        <div class="tree-node '' @ highlight @ ''">\<newline>            <details ''
        @ (if level < 2 then ''open'' else [])
        @ ''>\<newline>                <summary>\<newline>                    <span class="json-key">''
        @ key @ ''</span><span class="bracket">'' @ open_bracket
        @ ''</span>\<newline>                </summary>\<newline>                <div class="tree-content">\<newline>                    ''
        @ content
        @ ''\<newline>                </div>\<newline>            </details>\<newline>            <span class="bracket">''
        @ close_bracket @ ''</span>\<newline>        </div>\<newline>        '')\<close>

definition leaf_node :: "pyval \<Rightarrow> string \<Rightarrow> string \<Rightarrow> string" where
  \<open>leaf_node data key search_term =
    (let value_type = get_value_type data;
         highlight = highlight_class data search_term;
         val = (if value_type = ''string''
                  then ''<span class="json-string">"'' @ py_str data @ ''"</span>''
                else if value_type = ''number''
                  then ''<span class="json-number">'' @ py_str data @ ''</span>''
                else if value_type = ''boolean''
                  then ''<span class="json-boolean">'' @ lower (py_str data) @ ''</span>''
                else if value_type = ''null''
                  then ''<span class="json-null">null</span>''
                else py_str data)
     in ''<div class="tree-node '' @ highlight @ ''"><span class="json-key">'' @ key
        @ ''</span>: '' @ val @ ''</div>'')\<close>

text \<open>The two loops over the children are \<open>render_items\<close> (over \<^verbatim>\<open>data.items()\<close>) and
  \<open>render_elems\<close> (over \<^verbatim>\<open>enumerate(data)\<close>, the index carried along); each returns what
  the loop appends to \<^verbatim>\<open>content\<close>.\<close>

fun render_json_tree :: "pyval \<Rightarrow> string \<Rightarrow> string \<Rightarrow> int \<Rightarrow> string"
and render_items :: "(string \<times> pyval) list \<Rightarrow> string \<Rightarrow> int \<Rightarrow> string"
and render_elems :: "nat \<Rightarrow> pyval list \<Rightarrow> string \<Rightarrow> int \<Rightarrow> string" where
  "render_json_tree (PDict kvs) key search_term level =
     container_node (PDict kvs) key search_term level
       (''<ul>'' @ render_items kvs search_term level @ ''</ul>'')"
| "render_json_tree (PList xs) key search_term level =
     container_node (PList xs) key search_term level
       (''<ul>'' @ render_elems 0 xs search_term level @ ''</ul>'')"
| "render_json_tree data key search_term level = leaf_node data key search_term"
| "render_items [] search_term level = []"
| "render_items ((k, v) # kvs) search_term level =
     ''<li>'' @ render_json_tree v k search_term (level + 1) @ ''</li>''
     @ render_items kvs search_term level"
| "render_elems i [] search_term level = []"
| "render_elems i (item # xs) search_term level =
     ''<li>'' @ render_json_tree item (''['' @ str_nat i @ '']'') search_term (level + 1) @ ''</li>''
     @ render_elems (Suc i) xs search_term level"

text \<open>What a reader of the markup sees of a node: the class attribute of its opening
  \<^verbatim>\<open>div\<close>, and the attributes of its first \<^verbatim>\<open>details\<close> element.\<close>

fun after_first :: "string \<Rightarrow> string \<Rightarrow> string option" where
  "after_first pat [] = (if pat = [] then Some [] else None)"
| "after_first pat (c # cs) =
     (if prefix pat (c # cs) then Some (drop (length pat) (c # cs)) else after_first pat cs)"

definition node_class :: "string \<Rightarrow> string" where
  \<open>node_class html =
    (case after_first ''<div class="'' html of
       None \<Rightarrow> []
     | Some r \<Rightarrow> takeWhile (\<lambda>c. c \<noteq> dq) r)\<close>

definition is_highlighted :: "string \<Rightarrow> bool" where
  "is_highlighted html = (node_class html = ''tree-node json-highlight'')"

definition expanded_by_default :: "string \<Rightarrow> bool" where
  "expanded_by_default html =
    (case after_first ''<details '' html of
       None \<Rightarrow> False
     | Some r \<Rightarrow> takeWhile (\<lambda>c. c \<noteq> CHR ''>'') r = ''open'')"

section \<open>The path search engine\<close>

record hit =
  hit_path :: string
  hit_key :: string
  hit_value :: pyval

text \<open>The test of line 104:
  \<^verbatim>\<open>term.lower() in k.lower() or term.lower() in json.dumps(v).lower()\<close>.\<close>

definition key_matches :: "string \<Rightarrow> string \<Rightarrow> bool" where
  "key_matches trm k = py_in (lower trm) (lower k)"

definition value_matches :: "string \<Rightarrow> pyval \<Rightarrow> bool" where
  "value_matches trm v = py_in (lower trm) (lower (json_dumps v))"

definition child_path :: "string \<Rightarrow> string \<Rightarrow> string" where
  "child_path path k = (if path \<noteq> [] then path @ ''.'' @ k else k)"

definition index_path :: "string \<Rightarrow> nat \<Rightarrow> string" where
  "index_path path i = path @ ''['' @ str_nat i @ '']''"

fun search_json :: "pyval \<Rightarrow> string \<Rightarrow> string \<Rightarrow> hit list"
and search_items :: "(string \<times> pyval) list \<Rightarrow> string \<Rightarrow> string \<Rightarrow> hit list"
and search_elems :: "nat \<Rightarrow> pyval list \<Rightarrow> string \<Rightarrow> string \<Rightarrow> hit list" where
  "search_json (PDict kvs) trm path = search_items kvs trm path"
| "search_json (PList xs) trm path = search_elems 0 xs trm path"
| "search_json data trm path = []"
| "search_items [] trm path = []"
| "search_items ((k, v) # kvs) trm path =
     (let new_path = child_path path k in
        (if key_matches trm k \<or> value_matches trm v
         then [\<lparr>hit_path = new_path, hit_key = k, hit_value = v\<rparr>] else [])
        @ search_json v trm new_path
        @ search_items kvs trm path)"
| "search_elems i [] trm path = []"
| "search_elems i (item # xs) trm path =
     search_json item trm (index_path path i) @ search_elems (Suc i) xs trm path"

section \<open>Comment stripping\<close>

text \<open>
  \<^verbatim>\<open>remove_comments\<close> substitutes every match of the pattern
  \<^verbatim>\<open>(\".*?\"|\'.*?\')|(/\*.*?\*/|//[^\r\n]*$)\<close>, compiled with \<^verbatim>\<open>MULTILINE | DOTALL\<close>:
  a match of the second group is replaced by nothing, a match of the first group by
  itself. \<^verbatim>\<open>re.sub\<close> scans from the left; where no alternative matches, the character is
  copied and the scan moves on by one; after a match it resumes behind the match.

  The alternatives are decided by the first character. A quote matches up to the next
  quote of its kind (\<^verbatim>\<open>.*?\<close> is lazy and, with \<^verbatim>\<open>DOTALL\<close>, crosses newlines), and fails when
  there is none. \<^verbatim>\<open>/*\<close> matches up to the next \<^verbatim>\<open>*/\<close> behind it. \<^verbatim>\<open>//\<close> takes every
  character that is neither return nor newline and then needs \<^verbatim>\<open>$\<close>, which with
  \<^verbatim>\<open>MULTILINE\<close> holds at the end of the text and in front of a newline only.
\<close>

fun find_char :: "char \<Rightarrow> string \<Rightarrow> (string \<times> string) option" where
  "find_char q [] = None"
| "find_char q (c # cs) =
     (if c = q then Some ([], cs)
      else map_option (\<lambda>(body, rest). (c # body, rest)) (find_char q cs))"

fun find_star_slash :: "string \<Rightarrow> string option" where
  "find_star_slash [] = None"
| "find_star_slash (c # cs) =
     (if prefix ''*/'' (c # cs) then Some (drop 2 (c # cs)) else find_star_slash cs)"

definition line_comment_rest :: "string \<Rightarrow> string option" where
  "line_comment_rest cs =
    (let rest = dropWhile (\<lambda>c. c \<noteq> CR \<and> c \<noteq> LF) cs in
       if rest = [] \<or> hd rest = LF then Some rest else None)"

text \<open>Each matcher returns the replacement text and the text behind the match.\<close>

definition quoted_at :: "char \<Rightarrow> string \<Rightarrow> (string \<times> string) option" where
  "quoted_at q cs =
    (case find_char q cs of
       None \<Rightarrow> None
     | Some (body, rest) \<Rightarrow> Some ([q] @ body @ [q], rest))"

definition comment_at :: "string \<Rightarrow> (string \<times> string) option" where
  "comment_at cs =
    (case cs of
       [] \<Rightarrow> None
     | d # ds \<Rightarrow>
         if d = CHR ''*'' then map_option (Pair []) (find_star_slash ds)
         else if d = CHR ''/'' then map_option (Pair []) (line_comment_rest ds)
         else None)"

definition match_at :: "char \<Rightarrow> string \<Rightarrow> (string \<times> string) option" where
  "match_at c cs =
    (if c = dq \<or> c = sq then quoted_at c cs
     else if c = CHR ''/'' then comment_at cs
     else None)"

lemma find_char_length: "find_char q cs = Some (body, rest) \<Longrightarrow> length rest < length cs"
  by (induction cs arbitrary: body) (auto split: if_splits)

lemma find_star_slash_length: "find_star_slash cs = Some rest \<Longrightarrow> length rest < length cs"
  by (induction cs) (auto split: if_splits)

lemma line_comment_rest_length:
  "line_comment_rest cs = Some rest \<Longrightarrow> length rest \<le> length cs"
proof -
  assume "line_comment_rest cs = Some rest"
  then have "rest = dropWhile (\<lambda>c. c \<noteq> CR \<and> c \<noteq> LF) cs"
    unfolding line_comment_rest_def Let_def by (simp split: if_splits)
  then show ?thesis by (simp add: length_dropWhile_le)
qed

lemma quoted_at_length: "quoted_at q cs = Some (keep, rest) \<Longrightarrow> length rest < length cs"
  by (auto simp: quoted_at_def split: option.splits dest: find_char_length)

lemma comment_at_length: "comment_at cs = Some (keep, rest) \<Longrightarrow> length rest \<le> length cs"
  unfolding comment_at_def
  by (cases cs) (auto split: if_splits dest: find_star_slash_length line_comment_rest_length)

lemma match_at_length: "match_at c cs = Some (keep, rest) \<Longrightarrow> length rest \<le> length cs"
  unfolding match_at_def
  by (auto split: if_splits dest: quoted_at_length comment_at_length)

function remove_comments :: "string \<Rightarrow> string" where
  "remove_comments [] = []"
| "remove_comments (c # cs) =
     (case match_at c cs of
        None \<Rightarrow> c # remove_comments cs
      | Some (keep, rest) \<Rightarrow> keep @ remove_comments rest)"
  by pat_completeness auto
termination
proof (relation "measure length")
  show "wf (measure length)" by simp
next
  fix c :: char and cs :: string
  show "(cs, c # cs) \<in> measure length" by simp
next
  fix c :: char and cs :: string and x2 x y
  assume "match_at c cs = Some x2" "(x, y) = x2"
  then have "match_at c cs = Some (x, y)" by simp
  from match_at_length[OF this] show "(y, c # cs) \<in> measure length" by simp
qed

section \<open>Parsing and the page\<close>

text \<open>
  \<^verbatim>\<open>json.loads\<close> is the standard library's decoder and is a parameter here: it returns the
  decoded value, or the message of the \<^verbatim>\<open>JSONDecodeError\<close> it raises. \<^verbatim>\<open>parse_json_file\<close>
  returns the calls it makes on the page together with its result, which is \<^verbatim>\<open>None\<close> after a
  decoding error.
\<close>

datatype ui =
    Title
  | Header string
  | Error_box string
  | Success_parsed
  | Info_file nat
  | Found nat
  | Expander hit
  | Code_dump pyval
  | Success_copied
  | Tree_markdown string
  | Info_upload

definition parse_json_file :: "(string \<Rightarrow> string + pyval) \<Rightarrow> string \<Rightarrow> ui list \<times> pyval" where
  "parse_json_file json_loads file_content =
    (case json_loads (remove_comments file_content) of
       Inr v \<Rightarrow> ([], v)
     | Inl e \<Rightarrow> ([Error_box (''Invalid JSON file: '' @ e)], PNone))"

text \<open>Truth value of an object, as \<^verbatim>\<open>if json_data:\<close> takes it.\<close>

fun truthy :: "pyval \<Rightarrow> bool" where
  "truthy (PStr s) = (s \<noteq> [])"
| "truthy (PInt i) = (i \<noteq> 0)"
| "truthy (PFloat r) = (r \<noteq> ''0.0'' \<and> r \<noteq> ''-0.0'')"
| "truthy (PBool b) = b"
| "truthy PNone = False"
| "truthy (PDict kvs) = (kvs \<noteq> [])"
| "truthy (PList xs) = (xs \<noteq> [])"

text \<open>
  One run of \<^verbatim>\<open>main\<close>: the uploaded file's decoded text (if any), the content of the search
  box and the state of the copy button go in, the calls made on the page come out in
  order. The local variables \<^verbatim>\<open>json_data\<close> and \<^verbatim>\<open>search_term\<close> are bound only on some
  paths, and the right column asks \<^verbatim>\<open>locals()\<close> for them, so each is an option here:
  \<open>None\<close> is unbound. \<open>Tree_markdown\<close> carries the markup of the tree that
  \<^verbatim>\<open>st.markdown\<close> receives inside its container.
\<close>

definition left_column ::
  "(string \<Rightarrow> string + pyval) \<Rightarrow> string option \<Rightarrow> string \<Rightarrow> bool
     \<Rightarrow> ui list \<times> pyval option \<times> string option" where
  "left_column json_loads uploaded_file search_input copy_clicked =
    (case uploaded_file of
       None \<Rightarrow> ([], None, None)
     | Some file_content \<Rightarrow>
        (let (shown, json_data) = parse_json_file json_loads file_content in
         if truthy json_data then
           (let search_term = search_input;
                search_results = search_json json_data search_term []
            in (shown @ [Success_parsed, Info_file (length file_content)]
                  @ (if search_term \<noteq> []
                     then Found (length search_results) # map Expander search_results else [])
                  @ (if copy_clicked then [Code_dump json_data, Success_copied] else []),
                Some json_data, Some search_term))
         else (shown, Some json_data, None)))"

definition right_column :: "pyval option \<Rightarrow> string option \<Rightarrow> ui list" where
  "right_column json_data search_term =
    (case json_data of
       Some data \<Rightarrow>
         [Tree_markdown (render_json_tree data ''root''
            (case search_term of Some t \<Rightarrow> t | None \<Rightarrow> []) 0)]
     | None \<Rightarrow> [Info_upload])"

definition main ::
  "(string \<Rightarrow> string + pyval) \<Rightarrow> string option \<Rightarrow> string \<Rightarrow> bool \<Rightarrow> ui list" where
  "main json_loads uploaded_file search_input copy_clicked =
    (let (left, json_data, search_term) =
           left_column json_loads uploaded_file search_input copy_clicked
     in [Title, Header ''Upload and Search''] @ left
        @ [Header ''JSON Tree View''] @ right_column json_data search_term)"

section \<open>Reference notions\<close>

text \<open>
  Every key-value location of the document in pre-order: a pair comes before everything
  below its value, siblings come in the order of the dict or the list. Array slots are
  walked through but listed nowhere. This follows the wording "pre-order traversal
  order, parents' hits preceding descendants' hits, respecting the original key/array
  insertion order", not the search function.
\<close>

fun pairs_preorder :: "pyval \<Rightarrow> string \<Rightarrow> hit list"
and pairs_items :: "(string \<times> pyval) list \<Rightarrow> string \<Rightarrow> hit list"
and pairs_elems :: "nat \<Rightarrow> pyval list \<Rightarrow> string \<Rightarrow> hit list" where
  "pairs_preorder (PDict kvs) path = pairs_items kvs path"
| "pairs_preorder (PList xs) path = pairs_elems 0 xs path"
| "pairs_preorder data path = []"
| "pairs_items [] path = []"
| "pairs_items ((k, v) # kvs) path =
     \<lparr>hit_path = child_path path k, hit_key = k, hit_value = v\<rparr>
     # pairs_preorder v (child_path path k) @ pairs_items kvs path"
| "pairs_elems i [] path = []"
| "pairs_elems i (item # xs) path =
     pairs_preorder item (index_path path i) @ pairs_elems (Suc i) xs path"

definition hit_matches :: "string \<Rightarrow> hit \<Rightarrow> bool" where
  "hit_matches trm h = (key_matches trm (hit_key h) \<or> value_matches trm (hit_value h))"

text \<open>The renderer's decision read as a predicate.\<close>

definition highlights :: "pyval \<Rightarrow> string \<Rightarrow> bool" where
  "highlights data search_term = (highlight_class data search_term = ''json-highlight'')"

text \<open>
  The values nested at depth \<open>d\<close> below a value (the value itself is at depth 0), each
  with the label the renderer gives it: its key in a dict, \<^verbatim>\<open>[index]\<close> in a list.
\<close>

fun nested_at :: "nat \<Rightarrow> pyval \<Rightarrow> string \<Rightarrow> (string \<times> pyval) list" where
  "nested_at 0 v key = [(key, v)]"
| "nested_at (Suc d) (PDict kvs) key = concat (map (\<lambda>(k, v). nested_at d v k) kvs)"
| "nested_at (Suc d) (PList xs) key =
     concat (map (\<lambda>(i, x). nested_at d x (''['' @ str_nat i @ '']'')) (enumerate 0 xs))"
| "nested_at (Suc d) v key = []"

text \<open>The markup of a container in front of and behind the markup of its children.\<close>

definition container_open :: "pyval \<Rightarrow> string \<Rightarrow> string \<Rightarrow> int \<Rightarrow> string" where
  \<open>container_open data key search_term level =
     ''\<newline>        <div class="tree-node '' @ highlight_class data search_term
     @ ''">\<newline>            <details '' @ (if level < 2 then ''open'' else [])
     @ ''>\<newline>                <summary>\<newline>                    <span class="json-key">''
     @ key @ ''</span><span class="bracket">''
     @ (if get_value_type data = ''object'' then ''{'' else ''['')
     @ ''</span>\<newline>                </summary>\<newline>                <div class="tree-content">\<newline>                    ''\<close>

definition container_close :: "pyval \<Rightarrow> string" where
  \<open>container_close data =
     ''\<newline>                </div>\<newline>            </details>\<newline>            <span class="bracket">''
     @ (if get_value_type data = ''object'' then ''}'' else '']'')
     @ ''</span>\<newline>        </div>\<newline>        ''\<close>

text \<open>
  Values whose \<^verbatim>\<open>json.dumps\<close> and \<^verbatim>\<open>str\<close> are the same text up to letter case by their
  shape alone: integers, booleans, floats other than the two infinities (NaN among
  them), the empty dict, and lists of such values to any depth.
\<close>

fun same_up_to_case :: "pyval \<Rightarrow> bool"
and same_up_to_case_elems :: "pyval list \<Rightarrow> bool" where
  "same_up_to_case (PInt i) = True"
| "same_up_to_case (PBool b) = True"
| "same_up_to_case (PFloat r) = (r \<noteq> ''inf'' \<and> r \<noteq> ''-inf'')"
| "same_up_to_case (PList xs) = same_up_to_case_elems xs"
| "same_up_to_case (PDict kvs) = (kvs = [])"
| "same_up_to_case (PStr s) = False"
| "same_up_to_case PNone = False"
| "same_up_to_case_elems [] = True"
| "same_up_to_case_elems (x # xs) = (same_up_to_case x \<and> same_up_to_case_elems xs)"

section \<open>The type classifier: properties\<close>

text \<open>
  C1. The classifier should return "boolean" for a boolean and never "number". In the
  source the test \<^verbatim>\<open>isinstance(value, (int, float))\<close> stands before
  \<^verbatim>\<open>isinstance(value, bool)\<close>, and a Python boolean is an instance of \<^verbatim>\<open>int\<close>: both
  \<^verbatim>\<open>True\<close> and \<^verbatim>\<open>False\<close> are classified as "number", and the "boolean" branch
  is never taken.
\<close>

theorem get_value_type_bool: "get_value_type (PBool b) = ''number''"
  by (simp add: get_value_type_def isinstance_def subclass_of_def)

section \<open>The search engine: properties\<close>

lemma search_elems_concat:
  "search_elems i xs trm path =
     concat (map (\<lambda>(j, x). search_json x trm (index_path path j)) (enumerate i xs))"
  by (induction xs arbitrary: i) simp_all

lemma search_items_concat:
  "search_items kvs trm path =
     concat (map (\<lambda>(k, v).
        (if key_matches trm k \<or> value_matches trm v
         then [\<lparr>hit_path = child_path path k, hit_key = k, hit_value = v\<rparr>] else [])
        @ search_json v trm (child_path path k)) kvs)"
  by (induction kvs) (auto simp: Let_def)

text \<open>
  C2, as stated: for \<^verbatim>\<open>{"list":[10,20]}\<close> and the term "20" the single hit has the path
  "list[1]". It does not: the paths of the hits are not the list holding "list[1]".
\<close>

theorem search_list_example_counterexample:
  "map hit_path (search_json (PDict [(''list'', PList [PInt 10, PInt 20])]) ''20'' [])
     \<noteq> [''list[1]'']"
  by code_simp

text \<open>
  C2, amended: for \<^verbatim>\<open>{"list":[10,20]}\<close> and the term "20" the search returns exactly one
  hit, the pair of the key "list" itself (path "list", value the whole array), because
  the serialization of the array contains "20". No hit is emitted for an array slot:
  the hits of an array are the hits found inside its elements, in order, each searched
  under the path of its slot.
\<close>

theorem search_list_example:
  "search_json (PDict [(''list'', PList [PInt 10, PInt 20])]) ''20'' []
     = [\<lparr>hit_path = ''list'', hit_key = ''list'', hit_value = PList [PInt 10, PInt 20]\<rparr>]
   \<and> search_json (PList xs) trm path
     = concat (map (\<lambda>(i, x). search_json x trm (index_path path i)) (enumerate 0 xs))"
proof
  show "search_json (PDict [(''list'', PList [PInt 10, PInt 20])]) ''20'' []
     = [\<lparr>hit_path = ''list'', hit_key = ''list'', hit_value = PList [PInt 10, PInt 20]\<rparr>]"
    by code_simp
  show "search_json (PList xs) trm path
     = concat (map (\<lambda>(i, x). search_json x trm (index_path path i)) (enumerate 0 xs))"
    by (simp add: search_elems_concat)
qed

text \<open>
  C5. In a dict, each pair in order contributes its own hit exactly when the lowercased
  term occurs in the lowercased key or in the lowercased \<^verbatim>\<open>json.dumps\<close> of the whole value,
  followed in either case by the hits found inside the value. Searching
  \<^verbatim>\<open>{"a": 1, "b": {"c": 2}}\<close> for "1" gives exactly one hit, at path "a".
\<close>

theorem search_object_pairs:
  "search_json (PDict kvs) trm path =
     concat (map (\<lambda>(k, v).
        (if py_in (lower trm) (lower k) \<or> py_in (lower trm) (lower (json_dumps v))
         then [\<lparr>hit_path = child_path path k, hit_key = k, hit_value = v\<rparr>] else [])
        @ search_json v trm (child_path path k)) kvs)
   \<and> search_json (PDict [(''a'', PInt 1), (''b'', PDict [(''c'', PInt 2)])]) ''1'' []
     = [\<lparr>hit_path = ''a'', hit_key = ''a'', hit_value = PInt 1\<rparr>]"
proof
  show "search_json (PDict [(''a'', PInt 1), (''b'', PDict [(''c'', PInt 2)])]) ''1'' []
     = [\<lparr>hit_path = ''a'', hit_key = ''a'', hit_value = PInt 1\<rparr>]"
    by code_simp
  show "search_json (PDict kvs) trm path =
     concat (map (\<lambda>(k, v).
        (if py_in (lower trm) (lower k) \<or> py_in (lower trm) (lower (json_dumps v))
         then [\<lparr>hit_path = child_path path k, hit_key = k, hit_value = v\<rparr>] else [])
        @ search_json v trm (child_path path k)) kvs)"
    by (simp add: search_items_concat key_matches_def value_matches_def)
qed

lemma search_filter_all:
  "search_json data trm path = filter (hit_matches trm) (pairs_preorder data path)"
  "search_items kvs trm path = filter (hit_matches trm) (pairs_items kvs path)"
  "search_elems i xs trm path = filter (hit_matches trm) (pairs_elems i xs path)"
  by (induction data trm path and kvs trm path and i xs trm path
      rule: search_json_search_items_search_elems.induct)
     (simp_all add: hit_matches_def Let_def)

text \<open>
  C6. The result of a search is the pre-order list of the document's key-value locations
  with the locations that do not match left out: the hits keep the pre-order, a pair
  before everything found below it and siblings in document order. The search is a
  function of the document, the term and the path, so two calls on the same input give
  the same list.
\<close>

theorem search_json_preorder:
  "search_json data trm path = filter (hit_matches trm) (pairs_preorder data path)"
  by (rule search_filter_all)

text \<open>
  C10. On a root that is neither a dict nor a list the search returns the empty list,
  whatever the term: a top-level leaf is never reported, even when the term matches it.
\<close>

theorem search_json_root_leaf:
  "\<not> isinstance data [C_dict] \<Longrightarrow> \<not> isinstance data [C_list]
     \<Longrightarrow> search_json data trm path = []"
  by (cases data) (simp_all add: isinstance_def subclass_of_def)

theorem search_json_root_leaf_witness:
  "\<not> isinstance (PStr ''abc'') [C_dict] \<and> \<not> isinstance (PStr ''abc'') [C_list]
   \<and> value_matches ''abc'' (PStr ''abc'') \<and> search_json (PStr ''abc'') ''abc'' [] = []"
proof -
  have a: "\<not> isinstance (PStr ''abc'') [C_dict]" by (simp add: isinstance_def subclass_of_def)
  have b: "\<not> isinstance (PStr ''abc'') [C_list]" by (simp add: isinstance_def subclass_of_def)
  have c: "value_matches ''abc'' (PStr ''abc'')" by code_simp
  from a b c search_json_root_leaf[OF a b, of "''abc''" "[]"] show ?thesis by simp
qed

section \<open>The renderer: properties\<close>

lemma highlight_class_cases:
  "highlight_class data t = [] \<or> highlight_class data t = ''json-highlight''"
  by (simp add: highlight_class_def)

lemma node_class_container:
  "node_class (container_node data key t level content) = ''tree-node '' @ highlight_class data t"
  using highlight_class_cases[of data t]
  by (auto simp: node_class_def container_node_def Let_def)

lemma node_class_leaf:
  "node_class (leaf_node data key t) = ''tree-node '' @ highlight_class data t"
  using highlight_class_cases[of data t]
  by (auto simp: node_class_def leaf_node_def Let_def)

lemma node_class_render:
  "node_class (render_json_tree data key t level) = ''tree-node '' @ highlight_class data t"
  by (cases data) (simp_all add: node_class_container node_class_leaf)

lemma expanded_container:
  "expanded_by_default (container_node data key t level content) \<longleftrightarrow> level < 2"
  using highlight_class_cases[of data t]
  by (auto simp: expanded_by_default_def container_node_def Let_def)

lemma get_value_type_container:
  "(get_value_type v = ''object'' \<or> get_value_type v = ''array'')
     \<longleftrightarrow> (\<exists>kvs. v = PDict kvs) \<or> (\<exists>xs. v = PList xs)"
  by (cases v) (simp_all add: get_value_type_def isinstance_def subclass_of_def)

lemma container_node_split:
  "container_node data key t level content =
     container_open data key t level @ content @ container_close data"
  by (simp add: container_node_def container_open_def container_close_def Let_def)

lemma sublist_container_content:
  "sublist content (container_node data key t level content)"
  unfolding container_node_split by (rule sublist_appendI)

lemma sublist_at_end: "sublist xs ys \<Longrightarrow> sublist xs (ps @ ys)"
  using sublist_append_leftI sublist_order.order.trans by blast

lemma sublist_render_items:
  "(k, v) \<in> set kvs \<Longrightarrow>
     sublist (render_json_tree v k t (level + 1)) (render_items kvs t level)"
proof (induction kvs)
  case Nil
  then show ?case by simp
next
  case (Cons kv kvs)
  obtain k' v' where kv: "kv = (k', v')" by (cases kv)
  have unfold: "render_items (kv # kvs) t level =
      ''<li>'' @ render_json_tree v' k' t (level + 1) @ (''</li>'' @ render_items kvs t level)"
    unfolding kv by (simp only: render_items.simps)
  show ?case
  proof (cases "(k, v) = kv")
    case True
    then have "k' = k" "v' = v" using kv by simp_all
    then show ?thesis unfolding unfold by (simp only: sublist_appendI)
  next
    case False
    with Cons.prems have "(k, v) \<in> set kvs" by simp
    then have "sublist (render_json_tree v k t (level + 1)) (render_items kvs t level)"
      by (rule Cons.IH)
    then show ?thesis unfolding unfold
      by (intro sublist_at_end)
  qed
qed

lemma sublist_render_elems:
  "(i, x) \<in> set (enumerate n xs) \<Longrightarrow>
     sublist (render_json_tree x (''['' @ str_nat i @ '']'') t (level + 1))
             (render_elems n xs t level)"
proof (induction xs arbitrary: n)
  case Nil
  then show ?case by simp
next
  case (Cons y ys)
  have unfold: "render_elems n (y # ys) t level =
      ''<li>'' @ render_json_tree y (''['' @ str_nat n @ '']'') t (level + 1)
        @ (''</li>'' @ render_elems (Suc n) ys t level)"
    by (simp only: render_elems.simps)
  show ?case
  proof (cases "(i, x) = (n, y)")
    case True
    then have "i = n" "x = y" by simp_all
    then show ?thesis unfolding unfold by (simp only: sublist_appendI)
  next
    case False
    with Cons.prems have "(i, x) \<in> set (enumerate (Suc n) ys)" by auto
    then have "sublist (render_json_tree x (''['' @ str_nat i @ '']'') t (level + 1))
        (render_elems (Suc n) ys t level)"
      by (rule Cons.IH)
    then show ?thesis unfolding unfold
      by (intro sublist_at_end)
  qed
qed

lemma nested_rendered:
  "(k, c) \<in> set (nested_at d v key) \<Longrightarrow>
     sublist (render_json_tree c k t (level + int d)) (render_json_tree v key t level)"
proof (induction d arbitrary: v key level)
  case 0
  then show ?case by simp
next
  case (Suc d)
  have lv: "level + 1 + int d = level + int (Suc d)" by simp
  show ?case
  proof (cases v)
    case (PDict kvs)
    with Suc.prems obtain k' v' where kv: "(k', v') \<in> set kvs"
      and m: "(k, c) \<in> set (nested_at d v' k')" by auto
    have "sublist (render_json_tree c k t (level + 1 + int d))
            (render_json_tree v' k' t (level + 1))"
      by (rule Suc.IH[OF m])
    also have "sublist \<dots> (render_items kvs t level)"
      by (rule sublist_render_items[OF kv])
    also have "sublist \<dots> (''<ul>'' @ render_items kvs t level @ ''</ul>'')"
      by (rule sublist_appendI)
    also have "sublist \<dots> (render_json_tree v key t level)"
      unfolding PDict by (simp only: render_json_tree.simps sublist_container_content)
    finally show ?thesis unfolding lv .
  next
    case (PList xs)
    with Suc.prems obtain i x where ix: "(i, x) \<in> set (enumerate 0 xs)"
      and m: "(k, c) \<in> set (nested_at d x (''['' @ str_nat i @ '']''))" by auto
    have "sublist (render_json_tree c k t (level + 1 + int d))
            (render_json_tree x (''['' @ str_nat i @ '']'') t (level + 1))"
      by (rule Suc.IH[OF m])
    also have "sublist \<dots> (render_elems 0 xs t level)"
      by (rule sublist_render_elems[OF ix])
    also have "sublist \<dots> (''<ul>'' @ render_elems 0 xs t level @ ''</ul>'')"
      by (rule sublist_appendI)
    also have "sublist \<dots> (render_json_tree v key t level)"
      unfolding PList by (simp only: render_json_tree.simps sublist_container_content)
    finally show ?thesis unfolding lv .
  qed (use Suc.prems in simp_all)
qed

text \<open>
  C3. Every node of the document, at whatever depth \<open>d\<close> below the root, is rendered
  inside the markup of the root by the renderer's call on its own subtree with the same
  search term, and that node carries the highlight class exactly when the term is not
  empty and its lowercase form occurs in the lowercase form of \<^verbatim>\<open>str(data)\<close>, Python's
  text of the node's whole subtree (so \<^verbatim>\<open>None\<close> is tested as "none", and a dict or list as
  its \<^verbatim>\<open>repr\<close>). With an empty term no node is highlighted.
\<close>

theorem render_highlight_flag:
  assumes "(k, c) \<in> set (nested_at d root ''root'')"
  shows "sublist (render_json_tree c k t (int d)) (render_json_tree root ''root'' t 0)
     \<and> (is_highlighted (render_json_tree c k t (int d))
          \<longleftrightarrow> t \<noteq> [] \<and> py_in (lower t) (lower (py_str c)))"
proof
  show "sublist (render_json_tree c k t (int d)) (render_json_tree root ''root'' t 0)"
    using nested_rendered[OF assms, of t 0] by simp
  show "is_highlighted (render_json_tree c k t (int d))
          \<longleftrightarrow> t \<noteq> [] \<and> py_in (lower t) (lower (py_str c))"
    by (simp add: is_highlighted_def node_class_render highlight_class_def)
qed

theorem render_highlight_flag_witness:
  "(''a'', PStr ''x'') \<in> set (nested_at 1 (PDict [(''a'', PStr ''x'')]) ''root'')
   \<and> sublist (render_json_tree (PStr ''x'') ''a'' ''x'' (int 1))
        (render_json_tree (PDict [(''a'', PStr ''x'')]) ''root'' ''x'' 0)
   \<and> is_highlighted (render_json_tree (PStr ''x'') ''a'' ''x'' (int 1))"
proof -
  have a: "(''a'', PStr ''x'') \<in> set (nested_at 1 (PDict [(''a'', PStr ''x'')]) ''root'')"
    by code_simp
  have b: "''x'' \<noteq> [] \<and> py_in (lower ''x'') (lower (py_str (PStr ''x'')))"
    by code_simp
  from a b render_highlight_flag[OF a, of "''x''"] show ?thesis by blast
qed

text \<open>
  C7. A container (dict or list) nested at depth \<open>d\<close> below the root, the root being at
  depth 0, is rendered inside the markup of the root by the renderer's call at level
  \<open>d\<close>, and the \<^verbatim>\<open>details\<close> element of that node is open exactly when \<open>d < 2\<close>, whatever
  the container holds and whatever the search term is.
\<close>

theorem default_expansion_by_depth:
  assumes "(k, c) \<in> set (nested_at d root ''root'')"
    and "get_value_type c = ''object'' \<or> get_value_type c = ''array''"
  shows "sublist (render_json_tree c k t (int d)) (render_json_tree root ''root'' t 0)
     \<and> (expanded_by_default (render_json_tree c k t (int d)) \<longleftrightarrow> d < 2)"
proof
  show "sublist (render_json_tree c k t (int d)) (render_json_tree root ''root'' t 0)"
    using nested_rendered[OF assms(1), of t 0] by simp
  from assms(2) have "(\<exists>kvs. c = PDict kvs) \<or> (\<exists>xs. c = PList xs)"
    by (simp only: get_value_type_container)
  then show "expanded_by_default (render_json_tree c k t (int d)) \<longleftrightarrow> d < 2"
    by (auto simp: expanded_container)
qed

theorem default_expansion_by_depth_witness:
  "(''b'', PDict [(''c'', PInt 1)])
     \<in> set (nested_at 3
         (PDict [(''a'', PList [PInt 0, PDict [(''b'', PDict [(''c'', PInt 1)])]])]) ''root'')
   \<and> (get_value_type (PDict [(''c'', PInt 1)]) = ''object''
        \<or> get_value_type (PDict [(''c'', PInt 1)]) = ''array'')
   \<and> sublist (render_json_tree (PDict [(''c'', PInt 1)]) ''b'' ''c'' (int 3))
        (render_json_tree
          (PDict [(''a'', PList [PInt 0, PDict [(''b'', PDict [(''c'', PInt 1)])]])])
          ''root'' ''c'' 0)
   \<and> (expanded_by_default (render_json_tree (PDict [(''c'', PInt 1)]) ''b'' ''c'' (int 3))
        \<longleftrightarrow> (3::nat) < 2)"
proof -
  have a: "(''b'', PDict [(''c'', PInt 1)])
     \<in> set (nested_at 3
         (PDict [(''a'', PList [PInt 0, PDict [(''b'', PDict [(''c'', PInt 1)])]])]) ''root'')"
    by code_simp
  have b: "get_value_type (PDict [(''c'', PInt 1)]) = ''object''
        \<or> get_value_type (PDict [(''c'', PInt 1)]) = ''array''"
    by (simp add: get_value_type_def isinstance_def subclass_of_def)
  from a b default_expansion_by_depth[OF a b, of "''c''"] show ?thesis by blast
qed

section \<open>Search and highlight compared\<close>

text \<open>
  C4, as stated: the search engine's test of a value agrees with the renderer's highlight
  test. It does not: the search tests \<^verbatim>\<open>json.dumps(v)\<close>, the renderer \<^verbatim>\<open>str(data)\<close>, and
  \<^verbatim>\<open>None\<close> is "null" for the one and "None" for the other.
\<close>

theorem search_render_mismatch_counterexample:
  "value_matches ''null'' PNone \<noteq> highlights PNone ''null''"
  by code_simp

lemma py_in_sublist: "py_in sub s \<longleftrightarrow> sublist sub s"
  by (induction s) (simp_all add: sublist_Cons_right)

lemma lower_char_idem: "lower_char (lower_char c) = lower_char c"
  by (auto simp: lower_char_def Let_def)

lemma lower_idem: "lower (lower s) = lower s"
  by (simp add: lower_def lower_char_idem)

lemma lower_append: "lower (a @ b) = lower a @ lower b"
  by (simp add: lower_def)

lemma lower_Cons: "lower (c # s) = lower_char c # lower s"
  by (simp add: lower_def)

lemma lower_True: "lower ''True'' = ''true''"
  by code_simp

lemma lower_False: "lower ''False'' = ''false''"
  by code_simp

lemma lower_true: "lower ''true'' = ''true''"
  by code_simp

lemma lower_false: "lower ''false'' = ''false''"
  by code_simp

lemma lower_NaN: "lower ''NaN'' = lower ''nan''"
  by code_simp

lemma highlights_iff:
  "highlights v t \<longleftrightarrow> t \<noteq> [] \<and> sublist (lower t) (lower (py_str v))"
  by (simp add: highlights_def highlight_class_def py_in_sublist)

lemma value_matches_iff:
  "value_matches t v \<longleftrightarrow> sublist (lower t) (lower (json_dumps v))"
  by (simp add: value_matches_def py_in_sublist)

lemma agree_imp_sublist:
  assumes "\<forall>t. t \<noteq> [] \<longrightarrow> (sublist (lower t) A \<longleftrightarrow> sublist (lower t) B)"
    and "lower A = A"
  shows "sublist A B"
proof (cases "A = []")
  case True
  then show ?thesis by simp
next
  case False
  with assms(1) have "sublist (lower A) A \<longleftrightarrow> sublist (lower A) B" by blast
  then show ?thesis by (simp add: assms(2))
qed

lemma agree_iff_same_text:
  "(\<forall>t. t \<noteq> [] \<longrightarrow> (value_matches t v \<longleftrightarrow> highlights v t))
     \<longleftrightarrow> lower (json_dumps v) = lower (py_str v)"
proof
  assume eq: "lower (json_dumps v) = lower (py_str v)"
  show "\<forall>t. t \<noteq> [] \<longrightarrow> (value_matches t v \<longleftrightarrow> highlights v t)"
    by (simp add: value_matches_iff highlights_iff eq)
next
  assume ag: "\<forall>t. t \<noteq> [] \<longrightarrow> (value_matches t v \<longleftrightarrow> highlights v t)"
  let ?A = "lower (json_dumps v)" and ?B = "lower (py_str v)"
  from ag have 1: "\<forall>t. t \<noteq> [] \<longrightarrow> (sublist (lower t) ?A \<longleftrightarrow> sublist (lower t) ?B)"
    by (simp add: value_matches_iff highlights_iff)
  then have 2: "\<forall>t. t \<noteq> [] \<longrightarrow> (sublist (lower t) ?B \<longleftrightarrow> sublist (lower t) ?A)"
    by blast
  have "sublist ?A ?B" by (rule agree_imp_sublist[OF 1 lower_idem])
  moreover have "sublist ?B ?A" by (rule agree_imp_sublist[OF 2 lower_idem])
  ultimately show "?A = ?B" by (rule sublist_order.order.antisym)
qed

lemma same_up_to_case_repr:
  "same_up_to_case v \<Longrightarrow> lower (json_dumps v) = lower (py_repr v)"
  "same_up_to_case_elems xs \<Longrightarrow> lower (dumps_elems xs) = lower (repr_elems xs)"
proof (induction v and xs rule: same_up_to_case_same_up_to_case_elems.induct)
  case (2 b)
  then show ?case
    by (cases b) (simp_all add: lower_True lower_False lower_true lower_false)
next
  case (3 r)
  then show ?case by (auto simp: json_float_def lower_NaN)
qed (simp_all add: lower_append lower_Cons)

lemma same_up_to_case_str:
  "same_up_to_case v \<Longrightarrow> lower (json_dumps v) = lower (py_str v)"
  by (cases v) (use same_up_to_case_repr(1)[of v] in simp_all)

lemma json_char_nonempty: "json_char c \<noteq> []"
  by (simp add: json_char_def)

lemma length_concat_json: "length s \<le> length (concat (map json_char s))"
proof (induction s)
  case Nil
  then show ?case by simp
next
  case (Cons c s)
  have "1 \<le> length (json_char c)"
    using json_char_nonempty[of c] by (cases "json_char c") simp_all
  with Cons show ?case by simp
qed

lemma string_differs: "lower (json_dumps (PStr s)) \<noteq> lower (py_str (PStr s))"
proof
  assume "lower (json_dumps (PStr s)) = lower (py_str (PStr s))"
  then have "length (json_str s) = length s"
    by (metis json_dumps.simps(1) py_str.simps(1) lower_def length_map)
  moreover have "length s < length (json_str s)"
    using length_concat_json[of s] by (simp add: json_str_def)
  ultimately show False by simp
qed

lemma none_differs: "lower (json_dumps PNone) \<noteq> lower (py_str PNone)"
  by code_simp

lemma inf_differs:
  "lower (json_dumps (PFloat ''inf'')) \<noteq> lower (py_str (PFloat ''inf''))"
  "lower (json_dumps (PFloat ''-inf'')) \<noteq> lower (py_str (PFloat ''-inf''))"
  by code_simp+

lemma empty_term_differs: "value_matches [] v \<and> \<not> highlights v []"
  by (simp add: value_matches_iff highlights_iff lower_def)

text \<open>
  C4, amended: the search engine tests \<^verbatim>\<open>json.dumps(v)\<close> where the renderer tests
  \<^verbatim>\<open>str(v)\<close>. For a value \<open>v\<close> the search engine's test agrees with the renderer's
  highlight test for every term that is not empty if and only if \<^verbatim>\<open>json.dumps(v)\<close> and
  \<^verbatim>\<open>str(v)\<close> are the same text up to letter case. They are the same up to case for every
  integer, every boolean, every float other than the two infinities (NaN among them),
  the empty dict, and every list of such values to any depth; they never are for
  \<^verbatim>\<open>None\<close>, for a string at the top, or for the infinities. On the empty term the two
  tests always differ: the search matches every value and the renderer highlights none.
\<close>

theorem search_render_agree_iff_same_text:
  "((\<forall>t. t \<noteq> [] \<longrightarrow> (value_matches t v \<longleftrightarrow> highlights v t))
      \<longleftrightarrow> lower (json_dumps v) = lower (py_str v))
   \<and> (same_up_to_case v \<longrightarrow> lower (json_dumps v) = lower (py_str v))
   \<and> lower (json_dumps PNone) \<noteq> lower (py_str PNone)
   \<and> lower (json_dumps (PStr s)) \<noteq> lower (py_str (PStr s))
   \<and> lower (json_dumps (PFloat ''inf'')) \<noteq> lower (py_str (PFloat ''inf''))
   \<and> lower (json_dumps (PFloat ''-inf'')) \<noteq> lower (py_str (PFloat ''-inf''))
   \<and> value_matches [] v \<and> \<not> highlights v []"
  using agree_iff_same_text[of v] same_up_to_case_str[of v] none_differs string_differs[of s]
    inf_differs empty_term_differs[of v]
  by blast

theorem search_render_agree_iff_same_text_witness:
  "same_up_to_case (PList [PInt 10, PInt 20]) \<and> ''20'' \<noteq> []
   \<and> value_matches ''20'' (PList [PInt 10, PInt 20])
   \<and> highlights (PList [PInt 10, PInt 20]) ''20''
   \<and> same_up_to_case (PFloat ''nan'') \<and> ''NaN'' \<noteq> []
   \<and> value_matches ''NaN'' (PFloat ''nan'')
   \<and> highlights (PFloat ''nan'') ''NaN''"
proof -
  have a: "same_up_to_case (PList [PInt 10, PInt 20])" by simp
  have b: "''20'' \<noteq> []" by simp
  have c: "value_matches ''20'' (PList [PInt 10, PInt 20])" by code_simp
  have d: "same_up_to_case (PFloat ''nan'')" by simp
  have e: "''NaN'' \<noteq> []" by simp
  have f: "value_matches ''NaN'' (PFloat ''nan'')" by code_simp
  from a b c d e f
    search_render_agree_iff_same_text[of "PList [PInt 10, PInt 20]" "[]"]
    search_render_agree_iff_same_text[of "PFloat ''nan''" "[]"]
  show ?thesis by blast
qed

section \<open>Comment stripping: properties\<close>

text \<open>
  C8. A text without comments should come back unchanged, and a string literal holding
  \<^verbatim>\<open>//not a comment\<close> should be preserved. For \<^verbatim>\<open>{"a": "//not a comment"}\<close> this is what
  happens. The pattern knows nothing of escaped quotes, though: in the valid JSON text
  \<^verbatim>\<open>["a\"", "//not a comment"]\<close> the first literal is taken to end at the escaped quote,
  the next match runs from the literal's real closing quote to the quote that opens the
  second literal, and the second literal is then cut off as a line comment.
\<close>

theorem remove_comments_escaped_quote:
  \<open>remove_comments ''{"a": "//not a comment"}'' = ''{"a": "//not a comment"}''
   \<and> remove_comments (''["a'' @ [bs] @ ''"", "//not a comment"]'')
       = ''["a'' @ [bs] @ ''"", "''\<close>
  by code_simp

section \<open>Parse failures on the page\<close>

text \<open>
  C9. After a text that does not decode, \<^verbatim>\<open>parse_json_file\<close> reports the error and returns
  \<^verbatim>\<open>None\<close>, and the left column neither confirms nor searches. The right column only asks
  whether \<^verbatim>\<open>json_data\<close> is bound, which it is: the renderer is called on \<^verbatim>\<open>None\<close> and the
  page shows a tree with the single node "root: null".
\<close>

theorem main_renders_after_parse_failure:
  \<open>json_loads (remove_comments file_content) = Inl e \<Longrightarrow>
   main json_loads (Some file_content) search_input copy_clicked =
     [Title, Header ''Upload and Search'', Error_box (''Invalid JSON file: '' @ e),
      Header ''JSON Tree View'',
      Tree_markdown
        ''<div class="tree-node "><span class="json-key">root</span>: <span class="json-null">null</span></div>'']\<close>
  by (simp add: main_def left_column_def right_column_def parse_json_file_def leaf_node_def
      get_value_type_def highlight_class_def isinstance_def subclass_of_def Let_def)

theorem main_renders_after_parse_failure_witness:
  \<open>(\<lambda>s. Inl ''Expecting property name enclosed in double quotes: line 1 column 2 (char 1)'')
       (remove_comments ''{'')
     = (Inl ''Expecting property name enclosed in double quotes: line 1 column 2 (char 1)''
          :: string + pyval)
   \<and> main (\<lambda>s. Inl ''Expecting property name enclosed in double quotes: line 1 column 2 (char 1)'')
        (Some ''{'') ''x'' False =
     [Title, Header ''Upload and Search'',
      Error_box (''Invalid JSON file: ''
        @ ''Expecting property name enclosed in double quotes: line 1 column 2 (char 1)''),
      Header ''JSON Tree View'',
      Tree_markdown
        ''<div class="tree-node "><span class="json-key">root</span>: <span class="json-null">null</span></div>'']\<close>
  using main_renders_after_parse_failure[of
      "\<lambda>s. Inl ''Expecting property name enclosed in double quotes: line 1 column 2 (char 1)''"
      "''{''" "''Expecting property name enclosed in double quotes: line 1 column 2 (char 1)''"
      "''x''" False]
  by blast

end
